theory Spec2Isabelle
  imports Complex_Main "HOL-Library.AList" "HOL-Library.Log_Nat"
begin

section \<open>Python values and exceptions\<close>

text \<open>
  Untyped values that cross the tool boundary (payloads, JSON bodies of HTTP replies) are
  JSON values. A JSON object keeps its members in order, as a Python \<^verbatim>\<open>dict\<close> does.
\<close>

datatype json = JNull | JBool bool | JInt int | JStr string | JList "json list"
  | JDict "(string \<times> json) list"

text \<open>
  Every exception the modelled code can raise is a value. The three \<^verbatim>\<open>TypeError\<close>s that
  a call with keyword arguments produces are kept apart, with the names their messages
  carry; the other exceptions carry their message where the source gives one.
\<close>

datatype py_error =
    ImageGenerationError string
  | TypeError_unexpected_keyword string
  | TypeError_multiple_values string
  | TypeError_missing_arguments "string list"
  | TypeError string
  | ValueError string
  | ZeroDivisionError
  | OverflowError
  | IndexError
  | KeyError string
  | AttributeError string
  | RuntimeError string
  | RequestException string
  | JSONDecodeError
  | OSError string

section \<open>Generator registry (registery.py)\<close>

text \<open>
  A Python class is represented by the three things the program reads from it:
  \<^verbatim>\<open>__module__\<close>, \<^verbatim>\<open>__name__\<close> and the names bound in the class body itself
  (the keys of \<^verbatim>\<open>cls.__dict__\<close>; inherited attributes are not among them).
\<close>

record py_class =
  cls_module :: string
  cls_name :: string
  cls_dict :: "string list"

text \<open>
  A Python \<^verbatim>\<open>dict\<close> keeps its keys in insertion order and assigning to an existing key
  keeps the key's position. An association list updated with \<open>AList.update\<close> behaves
  the same way: the pair is replaced in place, or appended when the key is new.
\<close>

type_synonym registry = "(string \<times> py_class) list"

definition REGISTERED_GENERATORS :: registry where
  "REGISTERED_GENERATORS = []"

definition register :: "py_class \<Rightarrow> registry \<Rightarrow> registry" where
  "register cls reg = AList.update (cls_name cls) cls reg"

definition register_generator :: "string \<Rightarrow> py_class \<Rightarrow> registry \<Rightarrow> registry" where
  "register_generator name cls reg = AList.update name cls reg"

text \<open>
  The registry after a sequence of decorator applications
  \<^verbatim>\<open>@register_generator(name)\<close>, starting from the empty module-level dict.
\<close>

definition registry_after :: "(string \<times> py_class) list \<Rightarrow> registry" where
  "registry_after calls =
     fold (\<lambda>(name, cls). register_generator name cls) calls REGISTERED_GENERATORS"

text \<open>The two classes the repository registers, as declared in imagen/.\<close>

definition FluxClient :: py_class where
  "FluxClient =
     \<lparr> cls_module = ''imagen.flux'', cls_name = ''FluxClient'',
       cls_dict = [''Config'', ''__init__'', ''generate_image'', ''readme''] \<rparr>"

definition RunpodNanoBananaClient :: py_class where
  "RunpodNanoBananaClient =
     \<lparr> cls_module = ''imagen.runpod_nanobanana'', cls_name = ''RunpodNanoBananaClient'',
       cls_dict = [''Config'', ''__init__'', ''edit_image'', ''readme''] \<rparr>"

section \<open>The image-list tool (main.py)\<close>

record capabilities =
  cap_generate :: bool
  cap_edit :: bool

record generator_info =
  info_class :: string
  info_capabilities :: capabilities

definition is_overridden :: "py_class \<Rightarrow> string \<Rightarrow> bool" where
  "is_overridden cls method_name \<longleftrightarrow> method_name \<in> set (cls_dict cls)"

definition generator_entry :: "py_class \<Rightarrow> generator_info" where
  "generator_entry cls =
     \<lparr> info_class = cls_module cls @ ''.'' @ cls_name cls,
       info_capabilities =
         \<lparr> cap_generate = is_overridden cls ''generate_image'',
           cap_edit = is_overridden cls ''edit_image'' \<rparr> \<rparr>"

definition list_generators :: "registry \<Rightarrow> (string \<times> generator_info) list" where
  "list_generators generators =
     fold (\<lambda>(name, cls) out. AList.update name (generator_entry cls) out) generators []"

section \<open>Options construction (main.py)\<close>

text \<open>
  A dataclass is the list of its fields in declaration order. A field has a name, a
  \<^verbatim>\<open>default\<close> and a \<^verbatim>\<open>default_factory\<close>, each of which may be \<^verbatim>\<open>MISSING\<close> (\<open>None\<close>
  here); \<open>Some v\<close> as factory stands for a factory whose call returns \<open>v\<close>.
\<close>

record 'v dc_field =
  f_name :: string
  f_default :: "'v option"
  f_default_factory :: "'v option"

definition defaults_from_dataclass :: "'v dc_field list \<Rightarrow> (string \<times> 'v) list" where
  "defaults_from_dataclass dc_type =
     fold (\<lambda>f out.
        (case f_default f of
           Some d \<Rightarrow> AList.update (f_name f) d out
         | None \<Rightarrow>
            (case f_default_factory f of
               Some made \<Rightarrow> AList.update (f_name f) made out
             | None \<Rightarrow> out)))
       dc_type []"

text \<open>The dict display \<^verbatim>\<open>{**defaults, **payload}\<close>.\<close>

definition dict_merge :: "(string \<times> 'v) list \<Rightarrow> (string \<times> 'v) list \<Rightarrow> (string \<times> 'v) list" where
  "dict_merge defaults payload = fold (\<lambda>(k, v). AList.update k v) payload defaults"

text \<open>
  The \<^verbatim>\<open>__init__\<close> that \<^verbatim>\<open>@dataclass\<close> generates has a first parameter for the object
  itself and then one parameter per field, with a default exactly when the field declares
  a default or a factory. The fields are plain ones: each is a parameter of
  \<^verbatim>\<open>__init__\<close>, as the fields of both options types of the repository are. The first
  parameter is called \<^verbatim>\<open>self\<close>, or \<^verbatim>\<open>__dataclass_self__\<close> when a field is called
  \<^verbatim>\<open>self\<close>, so that it differs from every field.
\<close>

definition self_parameter :: "'v dc_field list \<Rightarrow> string" where
  "self_parameter flds =
     (if ''self'' \<in> set (map f_name flds) then ''__dataclass_self__'' else ''self'')"

text \<open>
  The call \<^verbatim>\<open>options_type(**merged)\<close> binds the keywords in the order of the dict. A
  keyword that names a field is bound to it. The first keyword that does not ends the
  call: the first parameter already holds the new object, so its name as a keyword is
  a second value for it; any other name is an unexpected keyword.
\<close>

fun first_rejected_keyword :: "string list \<Rightarrow> string \<Rightarrow> string list \<Rightarrow> py_error option" where
  "first_rejected_keyword names self_name [] = None"
| "first_rejected_keyword names self_name (k # ks) =
     (if k \<in> set names then first_rejected_keyword names self_name ks
      else if k = self_name then Some (TypeError_multiple_values k)
      else Some (TypeError_unexpected_keyword k))"

text \<open>
  When every keyword is bound, Python reports every parameter that has neither an
  argument nor a default, in declaration order; otherwise the object holds, per field,
  the argument or else the default.
\<close>

definition declared_default :: "'v dc_field \<Rightarrow> 'v option" where
  "declared_default f =
     (case f_default f of Some d \<Rightarrow> Some d | None \<Rightarrow> f_default_factory f)"

definition field_value :: "'v dc_field \<Rightarrow> (string \<times> 'v) list \<Rightarrow> 'v option" where
  "field_value f kwargs =
     (case map_of kwargs (f_name f) of Some v \<Rightarrow> Some v | None \<Rightarrow> declared_default f)"

definition dataclass_init ::
  "'v dc_field list \<Rightarrow> (string \<times> 'v) list \<Rightarrow> py_error + (string \<times> 'v) list" where
  "dataclass_init flds kwargs =
     (case first_rejected_keyword (map f_name flds) (self_parameter flds) (map fst kwargs) of
        Some e \<Rightarrow> Inl e
      | None \<Rightarrow>
         (case filter (\<lambda>f. field_value f kwargs = None) flds of
            [] \<Rightarrow>
              Inr (List.map_filter
                     (\<lambda>f. map_option (Pair (f_name f)) (field_value f kwargs)) flds)
          | m # ms \<Rightarrow> Inl (TypeError_missing_arguments (map f_name (m # ms)))))"

text \<open>
  \<^verbatim>\<open>_build_options_object\<close>. Both options types of the repository are dataclasses, so
  the branch for dataclasses is the one modelled; the other branch differs only in
  reading the defaults from the signature of \<^verbatim>\<open>__init__\<close>.
\<close>

definition build_options_object ::
  "'v dc_field list \<Rightarrow> (string \<times> 'v) list \<Rightarrow> py_error + (string \<times> 'v) list" where
  "build_options_object options_type payload =
     (let defaults = defaults_from_dataclass options_type;
          merged = dict_merge defaults payload
      in dataclass_init options_type merged)"

text \<open>The two options dataclasses the repository declares.\<close>

definition RunpodNanoBananaImageEditingOptions :: "json dc_field list" where
  "RunpodNanoBananaImageEditingOptions =
     [ \<lparr> f_name = ''prompt'', f_default = None, f_default_factory = None \<rparr>,
       \<lparr> f_name = ''image_urls'', f_default = None, f_default_factory = None \<rparr>,
       \<lparr> f_name = ''resolution'', f_default = Some (JStr ''1k''), f_default_factory = None \<rparr>,
       \<lparr> f_name = ''aspect_ratio'', f_default = Some JNull, f_default_factory = None \<rparr> ]"

definition FluxImageGeneratorOptions :: "json dc_field list" where
  "FluxImageGeneratorOptions =
     [ \<lparr> f_name = ''prompt'', f_default = None, f_default_factory = None \<rparr>,
       \<lparr> f_name = ''model'', f_default = Some (JStr ''flux-2-max''), f_default_factory = None \<rparr>,
       \<lparr> f_name = ''aspect_ratio'', f_default = Some (JStr ''1:1''), f_default_factory = None \<rparr> ]"

section \<open>Floats and integer parsing, as Python has them\<close>












text \<open>
  Strings are strings of ASCII characters. \<^verbatim>\<open>str.strip()\<close> drops the characters that
  \<^verbatim>\<open>str.isspace\<close> accepts, which among the ASCII ones are the six blanks of C and the
  four separators 0x1C to 0x1F.
\<close>

definition is_space :: "char \<Rightarrow> bool" where
  "is_space c \<longleftrightarrow> c \<in> set [CHR 0x09, CHR 0x0A, CHR 0x0B, CHR 0x0C, CHR 0x0D,
                              CHR 0x1C, CHR 0x1D, CHR 0x1E, CHR 0x1F, CHR 0x20]"

definition strip :: "string \<Rightarrow> string" where
  "strip s = rev (dropWhile is_space (rev (dropWhile is_space s)))"








section \<open>Nearest aspect ratio (utils/utils.py)\<close>









section \<open>The outside world\<close>

text \<open>
  The program talks to HTTP servers, an object store, the process environment, the clock
  and a random source. What they answer is data of the model: a \<open>world\<close> holds the
  answers, and a \<open>trace\<close> of the calls made so far, oldest first. Every function with an
  effect takes the world and returns it with the trace extended; an answer that depends
  on how often it was asked (the status of a job, the next random UUID) is indexed by
  the number of such calls already in the trace.
\<close>

datatype image = Image (image_size: "int \<times> int")

datatype event =
    StatusPoll string
  | Sleep nat
  | ImageDownload string
  | AssetFetch string
  | PutObject "string option" string
  | HttpPost string json
  | Uuid4

record http_response =
  status_code :: int
  json_body :: "py_error + json"

record s3_client =
  endpoint_url :: string
  region_name :: string
  aws_access_key_id :: string
  aws_secret_access_key :: string

record world =
  environ :: "string \<Rightarrow> string option"
  status_reply :: "nat \<Rightarrow> py_error + json"
  image_at :: "string \<Rightarrow> py_error + image"
  asset_at :: "string \<Rightarrow> py_error + string \<times> string"
  client_fault :: "s3_client \<Rightarrow> py_error option"
  put_fault :: "s3_client \<Rightarrow> string option \<Rightarrow> string \<Rightarrow> py_error option"
  uuid_at :: "nat \<Rightarrow> string"
  post_reply :: "string \<Rightarrow> json \<Rightarrow> py_error + http_response"
  suffix_of :: "string \<Rightarrow> py_error + string"
  trace :: "event list"

definition record_event :: "event \<Rightarrow> world \<Rightarrow> world" where
  "record_event e w = w\<lparr> trace := trace w @ [e] \<rparr>"

definition is_status_poll :: "event \<Rightarrow> bool" where
  "is_status_poll e = (case e of StatusPoll _ \<Rightarrow> True | _ \<Rightarrow> False)"

definition is_uuid4 :: "event \<Rightarrow> bool" where
  "is_uuid4 e = (case e of Uuid4 \<Rightarrow> True | _ \<Rightarrow> False)"

text \<open>\<^verbatim>\<open>os.environ.get(name, "")\<close>\<close>

definition getenv :: "world \<Rightarrow> string \<Rightarrow> string" where
  "getenv w name = (case environ w name of Some v \<Rightarrow> v | None \<Rightarrow> [])"

text \<open>\<^verbatim>\<open>time.sleep(seconds)\<close>\<close>

definition sleep :: "nat \<Rightarrow> world \<Rightarrow> world" where
  "sleep seconds w = record_event (Sleep seconds) w"

text \<open>\<^verbatim>\<open>str(uuid.uuid4())\<close>: the next value of the random source.\<close>

definition uuid4 :: "world \<Rightarrow> string \<times> world" where
  "uuid4 w = (uuid_at w (length (filter is_uuid4 (trace w))), record_event Uuid4 w)"

text \<open>\<^verbatim>\<open>d.get(key)\<close> and \<^verbatim>\<open>d[key]\<close> on a decoded JSON value; JSON null is \<^verbatim>\<open>None\<close>.\<close>

definition dict_get :: "json \<Rightarrow> string \<Rightarrow> py_error + json" where
  "dict_get d key =
     (case d of
        JDict kvs \<Rightarrow> Inr (case map_of kvs key of Some v \<Rightarrow> v | None \<Rightarrow> JNull)
      | _ \<Rightarrow> Inl (AttributeError ''get''))"

definition dict_index :: "json \<Rightarrow> string \<Rightarrow> py_error + json" where
  "dict_index d key =
     (case d of
        JDict kvs \<Rightarrow> (case map_of kvs key of Some v \<Rightarrow> Inr v | None \<Rightarrow> Inl (KeyError key))
      | _ \<Rightarrow> Inl (TypeError ''not subscriptable with a str''))"

text \<open>
  \<^verbatim>\<open>download_image(url)\<close> (utils/utils.py): one GET, then the body decoded as an image.
\<close>

definition download_image :: "string \<Rightarrow> world \<Rightarrow> (py_error + image) \<times> world" where
  "download_image url w = (image_at w url, record_event (ImageDownload url) w)"

section \<open>Object storage (utils/s3.py)\<close>

definition required_vars :: "string list" where
  "required_vars = [''S3_ENDPOINT_URL'', ''S3_ACCESS_KEY'', ''S3_SECRET_KEY'', ''S3_REGION'',
                    ''S3_CDN_URL'', ''S3_BUCKET'']"

fun all_vars_set :: "world \<Rightarrow> string list \<Rightarrow> bool" where
  "all_vars_set w [] = True"
| "all_vars_set w (var_name # rest) =
     (if strip (getenv w var_name) = [] then False else all_vars_set w rest)"

definition validate_s3_env_vars :: "world \<Rightarrow> bool" where
  "validate_s3_env_vars w = all_vars_set w required_vars"

text \<open>
  \<^verbatim>\<open>create_s3_client\<close> calls the validation and drops what it returns, then builds the
  client from the environment. Whether \<^verbatim>\<open>boto3.client\<close> raises is the world's answer.
\<close>

definition create_s3_client :: "world \<Rightarrow> py_error + s3_client" where
  "create_s3_client w =
     (let unused = validate_s3_env_vars w;
          s3 = \<lparr> endpoint_url = getenv w ''S3_ENDPOINT_URL'',
                 region_name = getenv w ''S3_REGION'',
                 aws_access_key_id = getenv w ''S3_ACCESS_KEY'',
                 aws_secret_access_key = getenv w ''S3_SECRET_KEY'' \<rparr>
      in case client_fault w s3 of Some e \<Rightarrow> Inl e | None \<Rightarrow> Inr s3)"

text \<open>\<^verbatim>\<open>fetch_url\<close>: one GET with \<^verbatim>\<open>raise_for_status\<close>; the content and its type.\<close>

definition fetch_url :: "string \<Rightarrow> world \<Rightarrow> (py_error + string \<times> string) \<times> world" where
  "fetch_url url w = (asset_at w url, record_event (AssetFetch url) w)"

definition put_object ::
  "s3_client \<Rightarrow> string option \<Rightarrow> string \<Rightarrow> world \<Rightarrow> (py_error + unit) \<times> world" where
  "put_object s3 bucket key w =
     ((case put_fault w s3 bucket key of Some e \<Rightarrow> Inl e | None \<Rightarrow> Inr ()),
      record_event (PutObject bucket key) w)"

text \<open>\<^verbatim>\<open>str(exc)\<close> for the message of the wrapping \<^verbatim>\<open>RuntimeError\<close>.\<close>

fun error_text :: "py_error \<Rightarrow> string" where
  "error_text (ImageGenerationError m) = m"
| "error_text (TypeError_unexpected_keyword k) = ''got an unexpected keyword argument '' @ k"
| "error_text (TypeError_multiple_values k) = ''got multiple values for argument '' @ k"
| "error_text (TypeError_missing_arguments ks) = ''missing required positional arguments''"
| "error_text (TypeError m) = m"
| "error_text (ValueError m) = m"
| "error_text ZeroDivisionError = ''division by zero''"
| "error_text OverflowError = ''integer division result too large for a float''"
| "error_text IndexError = ''list index out of range''"
| "error_text (KeyError k) = k"
| "error_text (AttributeError m) = m"
| "error_text (RuntimeError m) = m"
| "error_text (RequestException m) = m"
| "error_text JSONDecodeError = ''Expecting value''"
| "error_text (OSError m) = m"

definition copy_failed :: "string \<Rightarrow> py_error \<Rightarrow> py_error" where
  "copy_failed source_url exc =
     RuntimeError (''Failed to copy '' @ source_url @ '' to S3: '' @ error_text exc)"

definition startswith :: "string \<Rightarrow> string \<Rightarrow> bool" where
  "startswith s p \<longleftrightarrow> take (length p) s = p"

text \<open>\<^verbatim>\<open>s.rstrip('/')\<close>\<close>

definition rstrip_slash :: "string \<Rightarrow> string" where
  "rstrip_slash s = rev (dropWhile (\<lambda>c. c = CHR ''/'') (rev s))"

text \<open>
  \<^verbatim>\<open>copy_url_to_s3(source_url)\<close>. The second parameter of the source is overwritten
  before it is read, so it is left out. The extension is what
  \<^verbatim>\<open>PurePosixPath(urlparse(source_url).path).suffix\<close> yields, an answer of the world
  (\<open>suffix_of\<close>), since the standard library is not part of the repository.
\<close>

definition copy_url_to_s3 :: "string \<Rightarrow> world \<Rightarrow> (py_error + string) \<times> world" where
  "copy_url_to_s3 source_url w =
     (case create_s3_client w of
        Inl e \<Rightarrow> (Inl e, w)
      | Inr s3 \<Rightarrow>
         (let bucket = environ w ''S3_BUCKET''
          in if \<not> (startswith source_url ''http://'' \<or> startswith source_url ''https://'')
             then (Inl (ValueError ''source_url must be a valid HTTP/HTTPS URL''), w)
             else
              (case suffix_of w source_url of
                 Inl e \<Rightarrow> (Inl e, w)
               | Inr file_extension \<Rightarrow>
                  (case uuid4 w of (uuid, w1) \<Rightarrow>
                    (let destination_key = uuid @ file_extension
                     in case fetch_url source_url w1 of
                          (Inl exc, w2) \<Rightarrow> (Inl (copy_failed source_url exc), w2)
                        | (Inr (data, content_type), w2) \<Rightarrow>
                           (case put_object s3 bucket destination_key w2 of
                              (Inl exc, w3) \<Rightarrow> (Inl (copy_failed source_url exc), w3)
                            | (Inr _, w3) \<Rightarrow>
                               (let cdn_url = getenv w3 ''S3_CDN_URL'';
                                    public_url =
                                      (if cdn_url \<noteq> []
                                       then rstrip_slash cdn_url @ ''/'' @ destination_key
                                       else cdn_url @ ''/'' @ destination_key)
                                in (Inr public_url, w3))))))))"

section \<open>The Flux backend (imagen/flux.py)\<close>

record flux_config =
  api_key :: string

record flux_options =
  fo_prompt :: string
  fo_model :: string
  fo_aspect_ratio :: string

text \<open>
  A \<^verbatim>\<open>FluxResponse\<close> object. \<open>JNull\<close> in \<open>polling_url\<close>, \<open>request_id\<close> and
  \<open>retriveal_url\<close> is Python's \<^verbatim>\<open>None\<close>, as is \<open>None\<close> in \<open>image\<close>.
\<close>

record flux_response =
  response :: json
  image :: "image option"
  polling_url :: json
  request_id :: json
  retriveal_url :: json
  generator_config :: flux_config

definition FluxResponse :: "json \<Rightarrow> flux_config \<Rightarrow> py_error + flux_response" where
  "FluxResponse resp cfg =
     (case dict_get resp ''polling_url'' of
        Inl e \<Rightarrow> Inl e
      | Inr purl \<Rightarrow>
         (case dict_get resp ''id'' of
            Inl e \<Rightarrow> Inl e
          | Inr rid \<Rightarrow>
              Inr \<lparr> response = resp, image = None, polling_url = purl, request_id = rid,
                    retriveal_url = JNull, generator_config = cfg \<rparr>))"

text \<open>
  \<^verbatim>\<open>_retrieve_image\<close>: downloads when a retrieval URL is known, and returns the image
  attribute either way.
\<close>

definition retrieve_image ::
  "flux_response \<Rightarrow> world \<Rightarrow> (py_error + image option) \<times> flux_response \<times> world" where
  "retrieve_image self w =
     (case retriveal_url self of
        JNull \<Rightarrow> (Inr (image self), self, w)
      | JStr u \<Rightarrow>
         (case download_image u w of
            (Inl e, w') \<Rightarrow> (Inl e, self, w')
          | (Inr img, w') \<Rightarrow> (Inr (Some img), self\<lparr> image := Some img \<rparr>, w'))
      | _ \<Rightarrow> (Inl (RequestException ''Invalid URL''), self, w))"

text \<open>
  \<^verbatim>\<open>_pool\<close>: one status request. The reply is the world's answer to the n-th status
  request; \<open>Inl\<close> there stands for a failed request or a body that is not JSON.
\<close>

definition pool_once ::
  "flux_response \<Rightarrow> world \<Rightarrow> (py_error + bool) \<times> flux_response \<times> world" where
  "pool_once self w =
     (case polling_url self of
        JStr u \<Rightarrow>
         (let w' = record_event (StatusPoll u) w
          in case status_reply w (length (filter is_status_poll (trace w))) of
               Inl e \<Rightarrow> (Inl e, self, w')
             | Inr result \<Rightarrow>
                (case dict_get result ''status'' of
                   Inl e \<Rightarrow> (Inl e, self, w')
                 | Inr status \<Rightarrow>
                    if status \<in> set [JStr ''Failed'', JStr ''Error''] then (Inr False, self, w')
                    else if status = JStr ''Ready'' then
                      (case dict_index result ''result'' of
                         Inl e \<Rightarrow> (Inl e, self, w')
                       | Inr res \<Rightarrow>
                          (case dict_index res ''sample'' of
                             Inl e \<Rightarrow> (Inl e, self, w')
                           | Inr sample \<Rightarrow> (Inr True, self\<lparr> retriveal_url := sample \<rparr>, w')))
                    else (Inr False, self, w')))
      | _ \<Rightarrow> (Inl (RequestException ''Invalid URL''), self, w))"

text \<open>
  \<^verbatim>\<open>while not self._pool(): time.sleep(1)\<close>. The loop has no bound in the source; here
  it is given a number of status requests it may make, and \<open>None\<close> means that it is still
  polling when they are used up.
\<close>

fun poll_until_done ::
  "nat \<Rightarrow> flux_response \<Rightarrow> world \<Rightarrow> ((py_error + unit) \<times> flux_response \<times> world) option" where
  "poll_until_done 0 self w = None"
| "poll_until_done (Suc fuel) self w =
     (case pool_once self w of
        (Inl e, self', w') \<Rightarrow> Some (Inl e, self', w')
      | (Inr True, self', w') \<Rightarrow> Some (Inr (), self', w')
      | (Inr False, self', w') \<Rightarrow> poll_until_done fuel self' (sleep 1 w'))"

definition pool ::
  "nat \<Rightarrow> bool \<Rightarrow> flux_response \<Rightarrow> world
     \<Rightarrow> ((py_error + image option) \<times> flux_response \<times> world) option" where
  "pool fuel auto self w =
     (if image self \<noteq> None then Some (Inr (image self), self, w)
      else if polling_url self = JNull
      then Some (Inl (ImageGenerationError ''No polling url found''), self, w)
      else if auto then
        (case poll_until_done fuel self w of
           None \<Rightarrow> None
         | Some (Inl e, self', w') \<Rightarrow> Some (Inl e, self', w')
         | Some (Inr _, self', w') \<Rightarrow> Some (retrieve_image self' w'))
      else
        (case pool_once self w of
           (Inl e, self', w') \<Rightarrow> Some (Inl e, self', w')
         | (Inr _, self', w') \<Rightarrow> Some (retrieve_image self' w')))"

text \<open>
  \<^verbatim>\<open>url\<close>: resolve, then copy the asset to the object store.
  \<^verbatim>\<open>copy_url_to_s3\<close> creates its client before it looks at the URL, so a retrieval URL
  that is not a string fails only after that.
\<close>

definition url ::
  "nat \<Rightarrow> flux_response \<Rightarrow> world \<Rightarrow> ((py_error + string) \<times> flux_response \<times> world) option" where
  "url fuel self w =
     (case pool fuel True self w of
        None \<Rightarrow> None
      | Some (Inl e, self', w') \<Rightarrow> Some (Inl e, self', w')
      | Some (Inr _, self', w') \<Rightarrow>
         (case retriveal_url self' of
            JStr u \<Rightarrow> (case copy_url_to_s3 u w' of (r, w'') \<Rightarrow> Some (r, self', w''))
          | _ \<Rightarrow>
             (case create_s3_client w' of
                Inl e \<Rightarrow> Some (Inl e, self', w')
              | Inr _ \<Rightarrow> Some (Inl (AttributeError ''startswith''), self', w'))))"

text \<open>
  \<^verbatim>\<open>FluxClient.generate_image\<close>: one POST; two status codes are turned into errors,
  every other reply is decoded and wrapped.
\<close>

definition generate_image ::
  "flux_config \<Rightarrow> flux_options \<Rightarrow> world \<Rightarrow> (py_error + flux_response) \<times> world" where
  "generate_image cfg options w =
     (let endpoint = ''https://api.bfl.ai/v1/'' @ fo_model options;
          body = JDict [(''prompt'', JStr (fo_prompt options)),
                        (''aspect_ratio'', JStr (fo_aspect_ratio options))];
          w' = record_event (HttpPost endpoint body) w
      in case post_reply w endpoint body of
           Inl e \<Rightarrow> (Inl e, w')
         | Inr request \<Rightarrow>
            if status_code request = 429
            then (Inl (ImageGenerationError ''Rate limit exceeded''), w')
            else if status_code request = 402
            then (Inl (ImageGenerationError ''Out of credits''), w')
            else (case json_body request of
                    Inl e \<Rightarrow> (Inl e, w')
                  | Inr js \<Rightarrow> (FluxResponse js cfg, w')))"

section \<open>The nanobanana backend (imagen/runpod_nanobanana.py)\<close>




record nanobanana_response =
  nb_response :: json




text \<open>\<^verbatim>\<open>RunpodNanoBananaResponse.url\<close>\<close>

definition nanobanana_url ::
  "nanobanana_response \<Rightarrow> world \<Rightarrow> (py_error + string) \<times> world" where
  "nanobanana_url self w =
     (case dict_index (nb_response self) ''output'' of
        Inl e \<Rightarrow> (Inl e, w)
      | Inr out \<Rightarrow>
         (case dict_index out ''result'' of
            Inl e \<Rightarrow> (Inl e, w)
          | Inr (JStr u) \<Rightarrow> copy_url_to_s3 u w
          | Inr _ \<Rightarrow>
             (case create_s3_client w of
                Inl e \<Rightarrow> (Inl e, w)
              | Inr _ \<Rightarrow> (Inl (AttributeError ''startswith''), w))))"

section \<open>Example worlds and objects\<close>

text \<open>
  Concrete inputs for the evaluations below. \<open>storage_env\<close> sets all six storage
  variables; \<open>no_cdn_env\<close> leaves \<^verbatim>\<open>S3_CDN_URL\<close> unset.
\<close>

definition storage_env :: "string \<Rightarrow> string option" where
  "storage_env = map_of
     [(''S3_ENDPOINT_URL'', ''https://s3.example.com''), (''S3_ACCESS_KEY'', ''AK''),
      (''S3_SECRET_KEY'', ''SK''), (''S3_REGION'', ''fr-par''),
      (''S3_CDN_URL'', ''https://cdn.example.com/''), (''S3_BUCKET'', ''images'')]"

definition no_cdn_env :: "string \<Rightarrow> string option" where
  "no_cdn_env = map_of
     [(''S3_ENDPOINT_URL'', ''https://s3.example.com''), (''S3_ACCESS_KEY'', ''AK''),
      (''S3_SECRET_KEY'', ''SK''), (''S3_REGION'', ''fr-par''), (''S3_BUCKET'', ''images'')]"

definition sample_url :: string where
  "sample_url = ''https://delivery.bfl.ai/results/a.png''"

text \<open>
  A world in which the store and the asset server work, the random source yields two
  different UUIDs, and nothing answers status requests or POSTs yet.
\<close>

definition storage_world :: world where
  "storage_world =
     \<lparr> environ = storage_env,
       status_reply = (\<lambda>n. Inl (RequestException ''no reply'')),
       image_at = (\<lambda>u. Inr (Image (1920, 1080))),
       asset_at = (\<lambda>u. Inr (''bytes'', ''image/png'')),
       client_fault = (\<lambda>c. None),
       put_fault = (\<lambda>c b k. None),
       uuid_at = (\<lambda>n. if n = 0 then ''11111111-1111-4111-8111-111111111111''
                       else ''22222222-2222-4222-8222-222222222222''),
       post_reply = (\<lambda>u b. Inl (RequestException ''no reply'')),
       suffix_of = (\<lambda>u. Inr ''.png''),
       trace = [] \<rparr>"

definition pending_status :: json where
  "pending_status = JDict [(''status'', JStr ''Pending'')]"

definition failed_status :: json where
  "failed_status = JDict [(''status'', JStr ''Failed'')]"

definition ready_status :: json where
  "ready_status = JDict [(''status'', JStr ''Ready''),
                         (''result'', JDict [(''sample'', JStr sample_url)])]"

text \<open>The job is pending twice, then ready.\<close>

definition ready_world :: world where
  "ready_world = storage_world
     \<lparr> status_reply := (\<lambda>n. if n < 2 then Inr pending_status else Inr ready_status) \<rparr>"

text \<open>The job is pending once, then failed for good.\<close>

definition failed_world :: world where
  "failed_world = storage_world
     \<lparr> status_reply := (\<lambda>n. if n = 0 then Inr pending_status else Inr failed_status) \<rparr>"

definition flux_cfg :: flux_config where
  "flux_cfg = \<lparr> api_key = ''key'' \<rparr>"

text \<open>The response object \<^verbatim>\<open>generate_image\<close> builds from an accepted request.\<close>

definition pending_response :: flux_response where
  "pending_response =
     \<lparr> response = JDict [(''id'', JStr ''r1''),
                          (''polling_url'', JStr ''https://api.bfl.ai/v1/get_result?id=r1'')],
       image = None,
       polling_url = JStr ''https://api.bfl.ai/v1/get_result?id=r1'',
       request_id = JStr ''r1'',
       retriveal_url = JNull,
       generator_config = flux_cfg \<rparr>"

definition flux_request :: flux_options where
  "flux_request = \<lparr> fo_prompt = ''a cat'', fo_model = ''flux-2-max'', fo_aspect_ratio = ''1:1'' \<rparr>"

text \<open>A world whose Flux endpoint answers every POST with the given status and body.\<close>

definition post_world :: "int \<Rightarrow> json \<Rightarrow> world" where
  "post_world code body = storage_world
     \<lparr> post_reply := (\<lambda>u b. Inr \<lparr> status_code = code, json_body = Inr body \<rparr>) \<rparr>"


section \<open>Properties of the registry\<close>

lemma registry_after_snoc:
  "registry_after (calls @ [(name, cls)]) = AList.update name cls (registry_after calls)"
  by (simp add: registry_after_def register_generator_def)

lemma registry_after_keys_set:
  "set (map fst (registry_after calls)) = set (map fst calls)"
proof (induction calls rule: rev_induct)
  case Nil
  show ?case by (simp add: registry_after_def REGISTERED_GENERATORS_def)
next
  case (snoc c calls)
  obtain name cls where c: "c = (name, cls)" by (cases c)
  have "fst ` set (AList.update name cls (registry_after calls))
          = {name} \<union> fst ` set (registry_after calls)"
    by (rule dom_update)
  with snoc show ?case
    by (simp add: c registry_after_snoc)
qed

lemma registry_after_order:
  "map fst (registry_after calls) = rev (remdups (rev (map fst calls)))"
proof (induction calls rule: rev_induct)
  case Nil
  show ?case by (simp add: registry_after_def REGISTERED_GENERATORS_def)
next
  case (snoc c calls)
  obtain name cls where c: "c = (name, cls)" by (cases c)
  have mem: "name \<in> fst ` set (registry_after calls) \<longleftrightarrow> name \<in> fst ` set calls"
    using registry_after_keys_set [of calls] by simp
  show ?case
    using snoc mem by (simp add: c registry_after_snoc update_keys)
qed

lemma registry_after_lookup:
  "map_of (registry_after calls) = map_of (rev calls)"
proof (induction calls rule: rev_induct)
  case Nil
  show ?case by (simp add: registry_after_def REGISTERED_GENERATORS_def)
next
  case (snoc c calls)
  obtain name cls where c: "c = (name, cls)" by (cases c)
  show ?case
    using snoc by (simp add: c registry_after_snoc update_conv')
qed

text \<open>
  Claim C9. Registering a name inserts the entry or overwrites the one already there and
  leaves every other name as it was; no registration removes a name; after any sequence
  of registrations each name maps to the class of its last registration, exactly the
  registered names are present, and the names appear in the order in which each was
  registered for the first time (an overwritten name keeps its place).
\<close>

theorem register_generator_last_wins_ordered:
  "map_of (register_generator name cls reg) = (map_of reg)(name \<mapsto> cls)
   \<and> set (map fst reg) \<subseteq> set (map fst (register_generator name cls reg))
   \<and> map_of (registry_after calls) = map_of (rev calls)
   \<and> set (map fst calls) = set (map fst (registry_after calls))
   \<and> map fst (registry_after calls) = rev (remdups (rev (map fst calls)))"
proof (intro conjI)
  show "map_of (register_generator name cls reg) = (map_of reg)(name \<mapsto> cls)"
    by (simp add: register_generator_def update_conv')
  have "fst ` set (AList.update name cls reg) = {name} \<union> fst ` set reg"
    by (rule dom_update)
  then show "set (map fst reg) \<subseteq> set (map fst (register_generator name cls reg))"
    by (simp add: register_generator_def subset_insertI)
  show "map_of (registry_after calls) = map_of (rev calls)"
    by (rule registry_after_lookup)
  show "set (map fst calls) = set (map fst (registry_after calls))"
    by (rule registry_after_keys_set [symmetric])
  show "map fst (registry_after calls) = rev (remdups (rev (map fst calls)))"
    by (rule registry_after_order)
qed

theorem register_generator_last_wins_ordered_witness:
  "map fst (registry_after
      [(''flux'', RunpodNanoBananaClient), (''nanobanana'', RunpodNanoBananaClient),
       (''flux'', FluxClient)]) = [''flux'', ''nanobanana'']
   \<and> map_of (registry_after
      [(''flux'', RunpodNanoBananaClient), (''nanobanana'', RunpodNanoBananaClient),
       (''flux'', FluxClient)]) ''flux'' = Some FluxClient"
  using register_generator_last_wins_ordered
    [of "''flux''" FluxClient "[]"
        "[(''flux'', RunpodNanoBananaClient), (''nanobanana'', RunpodNanoBananaClient),
          (''flux'', FluxClient)]"]
  by simp

section \<open>Properties of the image-list tool\<close>

lemma list_generators_fold:
  "fold (\<lambda>(name, cls) out. AList.update name (generator_entry cls) out) gens out0
     = out0 @ map (\<lambda>(name, cls). (name, generator_entry cls)) gens"
  if "distinct (map fst out0 @ map fst gens)"
  using that
proof (induction gens arbitrary: out0)
  case Nil
  then show ?case by simp
next
  case (Cons g gens)
  obtain name cls where g: "g = (name, cls)" by (cases g)
  have notin: "name \<notin> fst ` set out0" using Cons.prems by (auto simp: g)
  have upd: "AList.update name (generator_entry cls) out0 = out0 @ [(name, generator_entry cls)]"
    using notin by (induction out0) auto
  have "distinct (map fst (out0 @ [(name, generator_entry cls)]) @ map fst gens)"
    using Cons.prems by (auto simp: g)
  from Cons.IH [OF this] show ?case
    by (simp add: g upd)
qed

lemma list_generators_map:
  "distinct (map fst gens) \<Longrightarrow>
   list_generators gens = map (\<lambda>(name, cls). (name, generator_entry cls)) gens"
  using list_generators_fold [of "[]" gens] by (simp add: list_generators_def)

lemma map_of_entries:
  "map_of (map (\<lambda>(name, cls). (name, generator_entry cls)) gens) name
     = map_option generator_entry (map_of gens name)"
  by (induction gens) auto

text \<open>
  Claim C8. For a registry (a dict, so its names are distinct) the output of image-list
  has exactly the registered names, in the same order, and the entry of each name carries
  generate = (generate_image is bound in that class's own body) and
  edit = (edit_image is bound in that class's own body).
\<close>

theorem list_generators_names_and_flags:
  assumes "distinct (map fst generators)"
  shows "map fst (list_generators generators) = map fst generators
     \<and> (\<forall>(name, cls) \<in> set generators.
          \<exists>info. map_of (list_generators generators) name = Some info
            \<and> (cap_generate (info_capabilities info)
                  \<longleftrightarrow> ''generate_image'' \<in> set (cls_dict cls))
            \<and> (cap_edit (info_capabilities info)
                  \<longleftrightarrow> ''edit_image'' \<in> set (cls_dict cls)))"
proof (intro conjI ballI)
  have eq: "list_generators generators
              = map (\<lambda>(name, cls). (name, generator_entry cls)) generators"
    by (rule list_generators_map [OF assms])
  show "map fst (list_generators generators) = map fst generators"
    unfolding eq by (induction generators) auto
  fix g assume g: "g \<in> set generators"
  obtain name cls where nc: "g = (name, cls)" by (cases g)
  have "map_of generators name = Some cls"
    using assms g by (simp add: nc)
  then have "map_of (list_generators generators) name = Some (generator_entry cls)"
    unfolding eq by (simp add: map_of_entries)
  then show "case g of (name, cls) \<Rightarrow>
          \<exists>info. map_of (list_generators generators) name = Some info
            \<and> (cap_generate (info_capabilities info)
                  \<longleftrightarrow> ''generate_image'' \<in> set (cls_dict cls))
            \<and> (cap_edit (info_capabilities info)
                  \<longleftrightarrow> ''edit_image'' \<in> set (cls_dict cls))"
    by (simp add: nc generator_entry_def is_overridden_def)
qed

theorem list_generators_names_and_flags_witness:
  "distinct (map fst [(''flux'', FluxClient), (''nanobanana'', RunpodNanoBananaClient)])
   \<and> map fst (list_generators [(''flux'', FluxClient), (''nanobanana'', RunpodNanoBananaClient)])
       = [''flux'', ''nanobanana'']
   \<and> map (\<lambda>(n, i). (n, cap_generate (info_capabilities i), cap_edit (info_capabilities i)))
       (list_generators [(''flux'', FluxClient), (''nanobanana'', RunpodNanoBananaClient)])
       = [(''flux'', True, False), (''nanobanana'', False, True)]"
proof -
  have d: "distinct (map fst [(''flux'', FluxClient), (''nanobanana'', RunpodNanoBananaClient)])"
    by simp
  have "map fst (list_generators [(''flux'', FluxClient), (''nanobanana'', RunpodNanoBananaClient)])
       = [''flux'', ''nanobanana'']"
    using list_generators_names_and_flags [OF d] by simp
  moreover have "map (\<lambda>(n, i). (n, cap_generate (info_capabilities i), cap_edit (info_capabilities i)))
       (list_generators [(''flux'', FluxClient), (''nanobanana'', RunpodNanoBananaClient)])
       = [(''flux'', True, False), (''nanobanana'', False, True)]"
    by (simp add: list_generators_def generator_entry_def is_overridden_def
        FluxClient_def RunpodNanoBananaClient_def)
  ultimately show ?thesis using d by simp
qed

section \<open>Properties of options construction\<close>

lemma map_of_fold_update:
  "map_of (fold (\<lambda>(k, v). AList.update k v) p d) = map_of d ++ map_of (rev p)"
proof (induction p arbitrary: d)
  case Nil
  show ?case by simp
next
  case (Cons a p)
  obtain k v where a: "a = (k, v)" by (cases a)
  have "map_of (fold (\<lambda>(k, v). AList.update k v) (a # p) d) x
          = (map_of d ++ map_of (rev (a # p))) x" for x
    by (simp add: Cons.IH a update_conv' map_add_def split: option.split)
  then show ?case by (rule ext)
qed

lemma map_of_rev_distinct:
  "distinct (map fst xs) \<Longrightarrow> map_of (rev xs) = map_of xs"
proof (induction xs)
  case Nil
  show ?case by simp
next
  case (Cons a xs)
  obtain k v where a: "a = (k, v)" by (cases a)
  from Cons.prems have "map_of xs k = None"
    by (simp add: a map_of_eq_None_iff)
  then have "[k \<mapsto> v] ++ map_of xs = (map_of xs)(k \<mapsto> v)"
    by (intro ext) (simp add: map_add_def split: option.split)
  with Cons show ?case
    by (simp add: a)
qed

lemma map_of_dict_merge:
  "distinct (map fst payload) \<Longrightarrow>
   map_of (dict_merge defaults payload) = map_of defaults ++ map_of payload"
  by (simp add: dict_merge_def map_of_fold_update map_of_rev_distinct)

lemma keys_dict_merge:
  "fst ` set (dict_merge defaults payload) = fst ` set defaults \<union> fst ` set payload"
proof -
  have "dom (map_of (dict_merge defaults payload))
          = dom (map_of defaults ++ map_of (rev payload))"
    by (simp add: dict_merge_def map_of_fold_update)
  then show ?thesis
    by (simp add: dom_map_of_conv_image_fst Un_commute)
qed

lemma defaults_fold_other:
  "name \<notin> f_name ` set flds \<Longrightarrow>
   map_of (fold (\<lambda>f out.
        (case f_default f of
           Some d \<Rightarrow> AList.update (f_name f) d out
         | None \<Rightarrow>
            (case f_default_factory f of
               Some made \<Rightarrow> AList.update (f_name f) made out
             | None \<Rightarrow> out))) flds out0) name = map_of out0 name"
  by (induction flds arbitrary: out0) (auto simp: update_conv' split: option.split)

lemma defaults_fold_field:
  "distinct (map f_name flds) \<Longrightarrow> f \<in> set flds \<Longrightarrow>
   map_of (fold (\<lambda>f out.
        (case f_default f of
           Some d \<Rightarrow> AList.update (f_name f) d out
         | None \<Rightarrow>
            (case f_default_factory f of
               Some made \<Rightarrow> AList.update (f_name f) made out
             | None \<Rightarrow> out))) flds out0) (f_name f)
     = (case declared_default f of Some d \<Rightarrow> Some d | None \<Rightarrow> map_of out0 (f_name f))"
proof (induction flds arbitrary: out0)
  case Nil
  then show ?case by simp
next
  case (Cons g gs)
  show ?case
  proof (cases "f = g")
    case True
    then have "f_name f \<notin> f_name ` set gs" using Cons.prems by auto
    from defaults_fold_other [OF this] show ?thesis
      by (simp add: True declared_default_def update_conv' split: option.split)
  next
    case False
    then have f: "f \<in> set gs" and ne: "f_name g \<noteq> f_name f"
      using Cons.prems by auto
    from Cons.prems have d: "distinct (map f_name gs)" by simp
    show ?thesis
      using ne by (simp add: Cons.IH [OF d f] update_conv' split: option.split)
  qed
qed

lemma map_of_defaults:
  "distinct (map f_name flds) \<Longrightarrow> f \<in> set flds \<Longrightarrow>
   map_of (defaults_from_dataclass flds) (f_name f) = declared_default f"
  unfolding defaults_from_dataclass_def
  by (simp add: defaults_fold_field split: option.split)

lemma keys_defaults:
  "fst ` set (defaults_from_dataclass flds) \<subseteq> f_name ` set flds"
proof
  fix name assume "name \<in> fst ` set (defaults_from_dataclass flds)"
  then have "map_of (defaults_from_dataclass flds) name \<noteq> None"
    by (simp add: map_of_eq_None_iff)
  show "name \<in> f_name ` set flds"
  proof (rule ccontr)
    assume "name \<notin> f_name ` set flds"
    then have "map_of (defaults_from_dataclass flds) name = map_of [] name"
      unfolding defaults_from_dataclass_def by (rule defaults_fold_other)
    with \<open>map_of (defaults_from_dataclass flds) name \<noteq> None\<close> show False by simp
  qed
qed

lemma field_value_merged:
  assumes "distinct (map f_name flds)" and "distinct (map fst payload)" and "f \<in> set flds"
  shows "field_value f (dict_merge (defaults_from_dataclass flds) payload)
           = (case map_of payload (f_name f) of Some v \<Rightarrow> Some v | None \<Rightarrow> declared_default f)"
  using assms
  by (simp add: field_value_def map_of_dict_merge map_add_def map_of_defaults
      split: option.split)

lemma map_filter_total:
  "(\<And>x. x \<in> set xs \<Longrightarrow> g x \<noteq> None) \<Longrightarrow>
   List.map_filter (\<lambda>x. map_option (Pair (h x)) (g x)) xs = map (\<lambda>x. (h x, the (g x))) xs"
proof (induction xs)
  case Nil
  show ?case by simp
next
  case (Cons a xs)
  from Cons.prems [of a] obtain y where y: "g a = Some y" by auto
  have "List.map_filter (\<lambda>x. map_option (Pair (h x)) (g x)) xs
          = map (\<lambda>x. (h x, the (g x))) xs"
    by (rule Cons.IH) (simp add: Cons.prems)
  then show ?case by (simp add: y)
qed

lemma first_rejected_keyword_None:
  "first_rejected_keyword names self_name ks = None \<longleftrightarrow> set ks \<subseteq> set names"
  by (induction ks) auto

lemma first_rejected_keyword_append:
  "set ks \<subseteq> set names \<Longrightarrow>
   first_rejected_keyword names self_name (ks @ ks') = first_rejected_keyword names self_name ks'"
  by (induction ks) auto

lemma first_rejected_keyword_filter:
  "D \<subseteq> set names \<Longrightarrow>
   first_rejected_keyword names self_name (filter (\<lambda>k. k \<notin> D) ks)
     = first_rejected_keyword names self_name ks"
  by (induction ks) auto

lemma first_rejected_keyword_first:
  "set p1 \<subseteq> set names \<Longrightarrow> k \<notin> set names \<Longrightarrow>
   first_rejected_keyword names self_name (p1 @ k # p2)
     = Some (if k = self_name then TypeError_multiple_values k
             else TypeError_unexpected_keyword k)"
  by (simp add: first_rejected_keyword_append)

lemma keys_fold_update:
  "distinct (map fst p) \<Longrightarrow>
   map fst (fold (\<lambda>(k, v). AList.update k v) p d)
     = map fst d @ filter (\<lambda>k. k \<notin> fst ` set d) (map fst p)"
proof (induction p arbitrary: d)
  case Nil
  show ?case by simp
next
  case (Cons a p)
  obtain k v where a: "a = (k, v)" by (cases a)
  from Cons.prems have dp: "distinct (map fst p)" and kp: "k \<notin> fst ` set p"
    by (simp_all add: a)
  have dom: "fst ` set (AList.update k v d) = {k} \<union> fst ` set d"
    by (rule dom_update)
  show ?case
  proof (cases "k \<in> fst ` set d")
    case True
    then have same: "fst ` set (AList.update k v d) = fst ` set d"
      using dom by auto
    from True have keys: "map fst (AList.update k v d) = map fst d"
      by (simp add: update_keys)
    show ?thesis
      using True by (simp add: a Cons.IH [OF dp] same keys)
  next
    case False
    then have keys: "map fst (AList.update k v d) = map fst d @ [k]"
      by (simp add: update_keys)
    have "filter (\<lambda>x. x \<notin> fst ` set (AList.update k v d)) (map fst p)
            = filter (\<lambda>x. x \<notin> fst ` set d) (map fst p)"
      using kp by (intro filter_cong) (auto simp: dom)
    then show ?thesis
      using False by (simp add: a Cons.IH [OF dp] keys)
  qed
qed

lemma first_rejected_merged:
  assumes "distinct (map fst payload)"
  shows "first_rejected_keyword (map f_name flds) self_name
           (map fst (dict_merge (defaults_from_dataclass flds) payload))
         = first_rejected_keyword (map f_name flds) self_name (map fst payload)"
proof -
  let ?d = "defaults_from_dataclass flds"
  have sub: "fst ` set ?d \<subseteq> set (map f_name flds)"
    using keys_defaults [of flds] by simp
  then have sub': "set (map fst ?d) \<subseteq> set (map f_name flds)"
    by simp
  have "map fst (dict_merge ?d payload)
          = map fst ?d @ filter (\<lambda>k. k \<notin> fst ` set ?d) (map fst payload)"
    unfolding dict_merge_def by (rule keys_fold_update [OF assms])
  then show ?thesis
    by (simp only: first_rejected_keyword_append [OF sub']
        first_rejected_keyword_filter [OF sub])
qed

lemma dataclass_init_known_keys:
  assumes "fst ` set kwargs \<subseteq> f_name ` set flds"
  shows "dataclass_init flds kwargs =
     (case filter (\<lambda>f. field_value f kwargs = None) flds of
            [] \<Rightarrow>
              Inr (List.map_filter
                     (\<lambda>f. map_option (Pair (f_name f)) (field_value f kwargs)) flds)
          | m # ms \<Rightarrow> Inl (TypeError_missing_arguments (map f_name (m # ms))))"
proof -
  have "first_rejected_keyword (map f_name flds) (self_parameter flds) (map fst kwargs) = None"
    using assms by (simp add: first_rejected_keyword_None)
  then show ?thesis by (simp add: dataclass_init_def)
qed

lemma build_known_keys:
  assumes dn: "distinct (map f_name flds)" and dp: "distinct (map fst payload)"
    and keys: "fst ` set payload \<subseteq> f_name ` set flds"
  shows "build_options_object flds payload =
     (case filter (\<lambda>f. declared_default f = None \<and> f_name f \<notin> fst ` set payload) flds of
        [] \<Rightarrow> Inr (map (\<lambda>f. (f_name f,
                  case map_of payload (f_name f) of Some v \<Rightarrow> v
                  | None \<Rightarrow> the (declared_default f))) flds)
      | m # ms \<Rightarrow> Inl (TypeError_missing_arguments (map f_name (m # ms))))"
proof -
  let ?merged = "dict_merge (defaults_from_dataclass flds) payload"
  have sub: "fst ` set ?merged \<subseteq> f_name ` set flds"
    using keys keys_defaults [of flds] by (simp add: keys_dict_merge)
  have fv: "\<And>f. f \<in> set flds \<Longrightarrow> field_value f ?merged
      = (case map_of payload (f_name f) of Some v \<Rightarrow> Some v | None \<Rightarrow> declared_default f)"
    by (rule field_value_merged [OF dn dp])
  have filt: "filter (\<lambda>f. field_value f ?merged = None) flds
      = filter (\<lambda>f. declared_default f = None \<and> f_name f \<notin> fst ` set payload) flds"
  proof (rule filter_cong [OF refl])
    fix f assume f: "f \<in> set flds"
    show "(field_value f ?merged = None)
            = (declared_default f = None \<and> f_name f \<notin> fst ` set payload)"
    proof (cases "map_of payload (f_name f)")
      case None
      then have "f_name f \<notin> fst ` set payload"
        by (simp add: map_of_eq_None_iff)
      with None show ?thesis by (simp add: fv [OF f])
    next
      case (Some v)
      then have "(f_name f, v) \<in> set payload" by (rule map_of_SomeD)
      then have "f_name f \<in> fst ` set payload" by force
      with Some show ?thesis by (simp add: fv [OF f])
    qed
  qed
  have obj: "filter (\<lambda>f. field_value f ?merged = None) flds = [] \<Longrightarrow>
     List.map_filter (\<lambda>f. map_option (Pair (f_name f)) (field_value f ?merged)) flds
       = map (\<lambda>f. (f_name f, case map_of payload (f_name f) of Some v \<Rightarrow> v
                  | None \<Rightarrow> the (declared_default f))) flds"
  proof -
    assume "filter (\<lambda>f. field_value f ?merged = None) flds = []"
    then have all: "\<And>f. f \<in> set flds \<Longrightarrow> field_value f ?merged \<noteq> None"
      by (simp add: filter_empty_conv)
    have "List.map_filter (\<lambda>f. map_option (Pair (f_name f)) (field_value f ?merged)) flds
       = map (\<lambda>f. (f_name f, the (field_value f ?merged))) flds"
      using all by (intro map_filter_total) simp
    also have "\<dots> = map (\<lambda>f. (f_name f, case map_of payload (f_name f) of Some v \<Rightarrow> v
                  | None \<Rightarrow> the (declared_default f))) flds"
      by (rule map_cong) (auto simp: fv split: option.split)
    finally show ?thesis .
  qed
  show ?thesis
    unfolding build_options_object_def Let_def dataclass_init_known_keys [OF sub]
    using obj by (simp add: filt [symmetric] split: list.split)
qed


lemma build_Inr_keys:
  assumes "build_options_object flds payload = Inr obj"
  shows "fst ` set payload \<subseteq> f_name ` set flds"
proof -
  let ?merged = "dict_merge (defaults_from_dataclass flds) payload"
  have "first_rejected_keyword (map f_name flds) (self_parameter flds) (map fst ?merged) = None"
    using assms
    by (simp add: build_options_object_def Let_def dataclass_init_def split: option.splits)
  then have "fst ` set ?merged \<subseteq> f_name ` set flds"
    by (simp add: first_rejected_keyword_None)
  then show ?thesis
    by (simp add: keys_dict_merge)
qed

lemma build_rejected_key:
  assumes dp: "distinct (map fst payload)"
    and split: "map fst payload = p1 @ k # p2"
    and before: "set p1 \<subseteq> f_name ` set flds"
    and k: "k \<notin> f_name ` set flds"
  shows "build_options_object flds payload
           = Inl (if k = self_parameter flds then TypeError_multiple_values k
                  else TypeError_unexpected_keyword k)"
proof -
  have "first_rejected_keyword (map f_name flds) (self_parameter flds)
          (map fst (dict_merge (defaults_from_dataclass flds) payload))
        = first_rejected_keyword (map f_name flds) (self_parameter flds) (p1 @ k # p2)"
    by (simp only: first_rejected_merged [OF dp] split)
  also have "\<dots> = Some (if k = self_parameter flds then TypeError_multiple_values k
                        else TypeError_unexpected_keyword k)"
    by (rule first_rejected_keyword_first) (use before k in simp_all)
  finally show ?thesis
    by (simp add: build_options_object_def Let_def dataclass_init_def)
qed

lemma map_of_field_map:
  assumes "distinct (map f_name flds)" and "f \<in> set flds"
  shows "map_of (map (\<lambda>f. (f_name f, g f)) flds) (f_name f) = Some (g f)"
proof -
  have "distinct (map fst (map (\<lambda>f. (f_name f, g f)) flds))"
    using assms(1) by (simp add: comp_def)
  moreover have "(f_name f, g f) \<in> set (map (\<lambda>f. (f_name f, g f)) flds)"
    using assms(2) by auto
  ultimately show ?thesis by simp
qed

lemma required_absent_from_merge:
  assumes "distinct (map f_name flds)" and "f \<in> set flds" and "declared_default f = None"
  shows "f_name f \<in> fst ` set (dict_merge (defaults_from_dataclass flds) payload)
           \<longleftrightarrow> f_name f \<in> fst ` set payload"
proof -
  have "map_of (defaults_from_dataclass flds) (f_name f) = None"
    using assms by (simp add: map_of_defaults)
  then have "f_name f \<notin> fst ` set (defaults_from_dataclass flds)"
    by (simp add: map_of_eq_None_iff)
  then show ?thesis by (simp add: keys_dict_merge)
qed

text \<open>
  Claim C3, as amended. For an options type (field names distinct) and a payload (a dict):
  construction from the empty payload succeeds exactly when every field declares a
  default; when every payload key is a declared field and some field without a default
  is absent from the merge of defaults and payload, construction fails with the
  missing-argument \<^verbatim>\<open>TypeError\<close> that names all such fields in declaration order, the
  first missing field first; and when some payload key is not a declared field,
  construction fails on the first such key in the order of the payload, whether or not
  a required field is missing: with the \<^verbatim>\<open>TypeError\<close> for multiple values when the key is
  the name of the first parameter of \<^verbatim>\<open>__init__\<close>, and with the one for an unexpected
  keyword otherwise, each naming the key.
\<close>

theorem build_options_object_required_fields:
  assumes dn: "distinct (map f_name options_type)" and dp: "distinct (map fst payload)"
  shows "((\<exists>obj. build_options_object options_type [] = Inr obj)
            \<longleftrightarrow> (\<forall>f \<in> set options_type. declared_default f \<noteq> None))
     \<and> (fst ` set payload \<subseteq> f_name ` set options_type \<longrightarrow>
          (\<forall>m ms.
             filter (\<lambda>f. declared_default f = None
                       \<and> f_name f \<notin> fst ` set (dict_merge (defaults_from_dataclass options_type) payload))
               options_type = m # ms
             \<longrightarrow> build_options_object options_type payload
                   = Inl (TypeError_missing_arguments (map f_name (m # ms)))))
     \<and> (\<forall>p1 k p2.
           map fst payload = p1 @ k # p2 \<and> set p1 \<subseteq> f_name ` set options_type
             \<and> k \<notin> f_name ` set options_type
           \<longrightarrow> build_options_object options_type payload
                 = Inl (if k = self_parameter options_type then TypeError_multiple_values k
                        else TypeError_unexpected_keyword k))"
proof (intro conjI impI allI)
  show "(\<exists>obj. build_options_object options_type [] = Inr obj)
            \<longleftrightarrow> (\<forall>f \<in> set options_type. declared_default f \<noteq> None)"
  proof (cases "filter (\<lambda>f. declared_default f = None) options_type")
    case Nil
    then have "\<forall>f \<in> set options_type. declared_default f \<noteq> None"
      by (simp add: filter_empty_conv)
    moreover have "\<exists>obj. build_options_object options_type [] = Inr obj"
      using build_known_keys [OF dn, of "[]"] Nil by simp
    ultimately show ?thesis by simp
  next
    case (Cons m ms)
    then have "m \<in> set (filter (\<lambda>f. declared_default f = None) options_type)"
      by simp
    then have "\<exists>f \<in> set options_type. declared_default f = None"
      by auto
    moreover have "\<not> (\<exists>obj. build_options_object options_type [] = Inr obj)"
      using build_known_keys [OF dn, of "[]"] Cons by simp
    ultimately show ?thesis by blast
  qed
next
  fix m ms
  assume keys: "fst ` set payload \<subseteq> f_name ` set options_type"
    and missing: "filter (\<lambda>f. declared_default f = None
                       \<and> f_name f \<notin> fst ` set (dict_merge (defaults_from_dataclass options_type) payload))
               options_type = m # ms"
  have "filter (\<lambda>f. declared_default f = None
                       \<and> f_name f \<notin> fst ` set (dict_merge (defaults_from_dataclass options_type) payload))
               options_type
        = filter (\<lambda>f. declared_default f = None \<and> f_name f \<notin> fst ` set payload) options_type"
  proof (rule filter_cong [OF refl])
    fix f assume f: "f \<in> set options_type"
    show "(declared_default f = None
            \<and> f_name f \<notin> fst ` set (dict_merge (defaults_from_dataclass options_type) payload))
          = (declared_default f = None \<and> f_name f \<notin> fst ` set payload)"
      using required_absent_from_merge [OF dn f, of payload] by blast
  qed
  with missing have "filter (\<lambda>f. declared_default f = None \<and> f_name f \<notin> fst ` set payload)
      options_type = m # ms" by simp
  then show "build_options_object options_type payload
                   = Inl (TypeError_missing_arguments (map f_name (m # ms)))"
    by (simp add: build_known_keys [OF dn dp keys])
next
  fix p1 k p2
  assume "map fst payload = p1 @ k # p2 \<and> set p1 \<subseteq> f_name ` set options_type
             \<and> k \<notin> f_name ` set options_type"
  then show "build_options_object options_type payload
                 = Inl (if k = self_parameter options_type then TypeError_multiple_values k
                        else TypeError_unexpected_keyword k)"
    using build_rejected_key [OF dp, of p1 k p2 options_type] by blast
qed

text \<open>
  Claim C4. When construction succeeds, the object has the declared fields in
  declaration order, every field the payload supplies holds the supplied value, every
  other field holds its declared default, and any payload that is the same dict (the
  same keys with the same values, in whatever order) constructs the same object.
\<close>

theorem build_options_object_overrides_defaults:
  assumes dn: "distinct (map f_name options_type)" and dp: "distinct (map fst payload)"
    and ok: "build_options_object options_type payload = Inr obj"
  shows "map fst obj = map f_name options_type
     \<and> (\<forall>(k, v) \<in> set payload. map_of obj k = Some v)
     \<and> (\<forall>f \<in> set options_type. f_name f \<notin> fst ` set payload \<longrightarrow>
           declared_default f \<noteq> None \<and> map_of obj (f_name f) = declared_default f)
     \<and> (\<forall>payload'. distinct (map fst payload') \<and> map_of payload' = map_of payload \<longrightarrow>
           build_options_object options_type payload' = Inr obj)"
proof -
  let ?g = "\<lambda>f. case map_of payload (f_name f) of Some v \<Rightarrow> v
                  | None \<Rightarrow> the (declared_default f)"
  have keys: "fst ` set payload \<subseteq> f_name ` set options_type"
    by (rule build_Inr_keys [OF ok])
  have shape: "(case filter (\<lambda>f. declared_default f = None \<and> f_name f \<notin> fst ` set payload)
              options_type of
        [] \<Rightarrow> Inr (map (\<lambda>f. (f_name f, ?g f)) options_type)
      | m # ms \<Rightarrow> Inl (TypeError_missing_arguments (map f_name (m # ms)))) = Inr obj"
    using build_known_keys [OF dn dp keys] ok by simp
  then have none_missing:
    "filter (\<lambda>f. declared_default f = None \<and> f_name f \<notin> fst ` set payload) options_type = []"
    by (simp split: list.splits)
  with shape have obj: "obj = map (\<lambda>f. (f_name f, ?g f)) options_type"
    by simp
  have lookup: "\<And>f. f \<in> set options_type \<Longrightarrow> map_of obj (f_name f) = Some (?g f)"
    unfolding obj by (rule map_of_field_map [OF dn])
  have c1: "map fst obj = map f_name options_type"
    by (simp add: obj comp_def)
  have c2: "\<forall>(k, v) \<in> set payload. map_of obj k = Some v"
  proof (intro ballI, clarify)
    fix k v assume kv: "(k, v) \<in> set payload"
    then have "k \<in> fst ` set payload" by force
    with keys obtain f where f: "f \<in> set options_type" and k: "k = f_name f" by auto
    from kv dp have "map_of payload k = Some v" by simp
    with lookup [OF f] show "map_of obj k = Some v" by (simp add: k)
  qed
  have c3: "\<forall>f \<in> set options_type. f_name f \<notin> fst ` set payload \<longrightarrow>
           declared_default f \<noteq> None \<and> map_of obj (f_name f) = declared_default f"
  proof (intro ballI impI)
    fix f assume f: "f \<in> set options_type" and absent: "f_name f \<notin> fst ` set payload"
    from none_missing f absent have dd: "declared_default f \<noteq> None"
      by (auto simp: filter_empty_conv)
    from absent have "map_of payload (f_name f) = None"
      by (simp add: map_of_eq_None_iff)
    with lookup [OF f] dd
    show "declared_default f \<noteq> None \<and> map_of obj (f_name f) = declared_default f"
      by auto
  qed
  have c4: "\<forall>payload'. distinct (map fst payload') \<and> map_of payload' = map_of payload \<longrightarrow>
           build_options_object options_type payload' = Inr obj"
  proof (intro allI impI)
    fix payload'
    assume a: "distinct (map fst payload') \<and> map_of payload' = map_of payload"
    then have "dom (map_of payload') = dom (map_of payload)" by simp
    then have same: "fst ` set payload' = fst ` set payload"
      by (simp add: dom_map_of_conv_image_fst)
    with keys have keys': "fst ` set payload' \<subseteq> f_name ` set options_type" by simp
    from a have dp': "distinct (map fst payload')" by simp
    show "build_options_object options_type payload' = Inr obj"
      using a shape
      by (simp add: build_known_keys [OF dn dp' keys'] same cong: list.case_cong)
  qed
  from c1 c2 c3 c4 show ?thesis by blast
qed

text \<open>
  The claim as first stated fails when the payload carries a key that is no field: the
  required field \<^verbatim>\<open>prompt\<close> is absent from the merge, yet the error raised is the one
  for the unexpected keyword and names no missing field.
\<close>

theorem build_options_object_required_fields_counterexample:
  "(\<exists>f \<in> set RunpodNanoBananaImageEditingOptions.
       declared_default f = None
       \<and> f_name f \<notin> fst ` set (dict_merge
             (defaults_from_dataclass RunpodNanoBananaImageEditingOptions)
             [(''bogus'', JInt 1)]))
   \<and> build_options_object RunpodNanoBananaImageEditingOptions [(''bogus'', JInt 1)]
       = Inl (TypeError_unexpected_keyword ''bogus'')"
  by (simp add: build_options_object_def RunpodNanoBananaImageEditingOptions_def
      defaults_from_dataclass_def dict_merge_def dataclass_init_def declared_default_def
      self_parameter_def)

theorem build_options_object_required_fields_witness:
  "distinct (map f_name RunpodNanoBananaImageEditingOptions)
   \<and> distinct (map fst [(''image_urls'', JList [JStr ''https://a/b.png''])])
   \<and> fst ` set [(''image_urls'', JList [JStr ''https://a/b.png''])]
        \<subseteq> f_name ` set RunpodNanoBananaImageEditingOptions
   \<and> build_options_object RunpodNanoBananaImageEditingOptions
        [(''image_urls'', JList [JStr ''https://a/b.png''])]
        = Inl (TypeError_missing_arguments [''prompt''])
   \<and> build_options_object RunpodNanoBananaImageEditingOptions []
        = Inl (TypeError_missing_arguments [''prompt'', ''image_urls''])
   \<and> (\<exists>f \<in> set RunpodNanoBananaImageEditingOptions. declared_default f = None)
   \<and> distinct (map fst [(''prompt'', JStr ''a cat''), (''self'', JInt 1)])
   \<and> build_options_object RunpodNanoBananaImageEditingOptions
        [(''prompt'', JStr ''a cat''), (''self'', JInt 1)]
        = Inl (TypeError_multiple_values ''self'')"
proof -
  let ?T = RunpodNanoBananaImageEditingOptions
  let ?p = "[(''image_urls'', JList [JStr ''https://a/b.png''])]"
  have dn: "distinct (map f_name ?T)"
    by (simp add: RunpodNanoBananaImageEditingOptions_def)
  have dp: "distinct (map fst ?p)" by simp
  have keys: "fst ` set ?p \<subseteq> f_name ` set ?T"
    by (simp add: RunpodNanoBananaImageEditingOptions_def)
  have flt: "filter (\<lambda>f. declared_default f = None
                 \<and> f_name f \<notin> fst ` set (dict_merge (defaults_from_dataclass ?T) ?p)) ?T
      = [\<lparr> f_name = ''prompt'', f_default = None, f_default_factory = None \<rparr>]"
    by (simp add: RunpodNanoBananaImageEditingOptions_def defaults_from_dataclass_def
        dict_merge_def declared_default_def)
  have r1: "build_options_object ?T ?p = Inl (TypeError_missing_arguments [''prompt''])"
    using build_options_object_required_fields [OF dn dp] keys flt by simp
  have r2: "build_options_object ?T [] = Inl (TypeError_missing_arguments [''prompt'', ''image_urls''])"
    by (simp add: build_options_object_def RunpodNanoBananaImageEditingOptions_def
      defaults_from_dataclass_def dict_merge_def dataclass_init_def declared_default_def
      field_value_def)
  have r3: "\<exists>f \<in> set ?T. declared_default f = None"
    by (simp add: RunpodNanoBananaImageEditingOptions_def declared_default_def)
  have dq: "distinct (map fst [(''prompt'', JStr ''a cat''), (''self'', JInt 1)])" by simp
  have "map fst [(''prompt'', JStr ''a cat''), (''self'', JInt 1)] = [''prompt''] @ ''self'' # []
      \<and> set [''prompt''] \<subseteq> f_name ` set ?T \<and> ''self'' \<notin> f_name ` set ?T"
    by (simp add: RunpodNanoBananaImageEditingOptions_def)
  with build_options_object_required_fields [OF dn dq]
  have "build_options_object ?T [(''prompt'', JStr ''a cat''), (''self'', JInt 1)]
      = Inl (if ''self'' = self_parameter ?T then TypeError_multiple_values ''self''
             else TypeError_unexpected_keyword ''self'')"
    by blast
  then have r4: "build_options_object ?T [(''prompt'', JStr ''a cat''), (''self'', JInt 1)]
      = Inl (TypeError_multiple_values ''self'')"
    by (simp add: self_parameter_def RunpodNanoBananaImageEditingOptions_def)
  from dn dp keys r1 r2 r3 dq r4 show ?thesis by blast
qed

theorem build_options_object_overrides_defaults_witness:
  "distinct (map f_name FluxImageGeneratorOptions)
   \<and> distinct (map fst [(''aspect_ratio'', JStr ''16:9''), (''prompt'', JStr ''a cat'')])
   \<and> build_options_object FluxImageGeneratorOptions
        [(''aspect_ratio'', JStr ''16:9''), (''prompt'', JStr ''a cat'')]
       = Inr [(''prompt'', JStr ''a cat''), (''model'', JStr ''flux-2-max''),
              (''aspect_ratio'', JStr ''16:9'')]
   \<and> map fst [(''prompt'', JStr ''a cat''), (''model'', JStr ''flux-2-max''),
              (''aspect_ratio'', JStr ''16:9'')] = map f_name FluxImageGeneratorOptions"
proof -
  let ?T = FluxImageGeneratorOptions
  let ?p = "[(''aspect_ratio'', JStr ''16:9''), (''prompt'', JStr ''a cat'')]"
  let ?o = "[(''prompt'', JStr ''a cat''), (''model'', JStr ''flux-2-max''),
              (''aspect_ratio'', JStr ''16:9'')]"
  have dn: "distinct (map f_name ?T)"
    by (simp add: FluxImageGeneratorOptions_def)
  have dp: "distinct (map fst ?p)" by simp
  have ok: "build_options_object ?T ?p = Inr ?o"
    by (simp add: build_options_object_def FluxImageGeneratorOptions_def
      defaults_from_dataclass_def dict_merge_def dataclass_init_def declared_default_def
      field_value_def)
  have "map fst ?o = map f_name ?T"
    using build_options_object_overrides_defaults [OF dn dp ok] by blast
  with dn dp ok show ?thesis by blast
qed

section \<open>Properties of nearest-aspect-ratio selection\<close>

subsection \<open>The order on floats\<close>





subsection \<open>The builtin min keeps the first least item\<close>



subsection \<open>Evaluating float operations on numerals\<close>












section \<open>Properties of the storage copy\<close>



text \<open>
  Claim C7, evaluated on the code. With \<^verbatim>\<open>S3_CDN_URL\<close> unset the validation answers
  False, yet the copy raises nothing: it fetches, uploads and returns a URL that starts
  with a bare slash.
\<close>

theorem copy_url_to_s3_ignores_validation:
  "validate_s3_env_vars (storage_world\<lparr> environ := no_cdn_env \<rparr>) = False
   \<and> copy_url_to_s3 sample_url (storage_world\<lparr> environ := no_cdn_env \<rparr>)
       = (Inr ''/11111111-1111-4111-8111-111111111111.png'',
          storage_world\<lparr> environ := no_cdn_env,
            trace := [Uuid4, AssetFetch sample_url,
                      PutObject (Some ''images'') ''11111111-1111-4111-8111-111111111111.png''] \<rparr>)"
  by (simp add: validate_s3_env_vars_def required_vars_def getenv_def strip_def is_space_def
      no_cdn_env_def storage_world_def sample_url_def copy_url_to_s3_def create_s3_client_def
      startswith_def uuid4_def fetch_url_def put_object_def record_event_def is_uuid4_def
      rstrip_slash_def Let_def)

section \<open>Properties of Flux response resolution\<close>

lemma polls_after_record [simp]:
  "length (filter is_status_poll (trace (record_event (StatusPoll u) w)))
     = Suc (length (filter is_status_poll (trace w)))"
  "length (filter is_status_poll (trace (sleep s w))) = length (filter is_status_poll (trace w))"
  by (simp_all add: record_event_def sleep_def is_status_poll_def)

lemma status_reply_unchanged [simp]:
  "status_reply (record_event e w) = status_reply w"
  "status_reply (sleep s w) = status_reply w"
  by (simp_all add: record_event_def sleep_def)

lemma pool_once_not_done:
  assumes "polling_url self = JStr u"
    and "status_reply w (length (filter is_status_poll (trace w))) = Inr reply"
    and "reply = pending_status \<or> reply = failed_status"
  shows "pool_once self w = (Inr False, self, record_event (StatusPoll u) w)"
  using assms
  by (auto simp: pool_once_def Let_def dict_get_def pending_status_def failed_status_def)

text \<open>
  As long as every further status reply is Pending or Failed, the loop is still running
  after any number of requests.
\<close>

lemma poll_until_done_never_done:
  assumes "polling_url self = JStr u"
    and "\<forall>n \<ge> length (filter is_status_poll (trace w)).
           status_reply w n = Inr pending_status \<or> status_reply w n = Inr failed_status"
  shows "poll_until_done fuel self w = None"
  using assms
proof (induction fuel arbitrary: w)
  case 0
  show ?case by simp
next
  case (Suc fuel)
  let ?n = "length (filter is_status_poll (trace w))"
  from Suc.prems(2) obtain reply where r: "status_reply w ?n = Inr reply"
    and k: "reply = pending_status \<or> reply = failed_status"
    by auto
  have once: "pool_once self w = (Inr False, self, record_event (StatusPoll u) w)"
    by (rule pool_once_not_done [OF Suc.prems(1) r k])
  have "\<forall>n \<ge> length (filter is_status_poll (trace (sleep 1 (record_event (StatusPoll u) w)))).
           status_reply (sleep 1 (record_event (StatusPoll u) w)) n = Inr pending_status
           \<or> status_reply (sleep 1 (record_event (StatusPoll u) w)) n = Inr failed_status"
    using Suc.prems(2) by simp
  from Suc.IH [OF Suc.prems(1) this] show ?case
    by (simp add: once)
qed

lemma poll_until_done_more_fuel:
  "poll_until_done fuel self w = Some r \<Longrightarrow> poll_until_done (fuel + k) self w = Some r"
proof (induction fuel arbitrary: self w)
  case 0
  then show ?case by simp
next
  case (Suc fuel)
  then show ?case
    by (auto split: prod.splits sum.splits bool.splits)
qed

lemma pool_more_fuel:
  "pool fuel auto self w = Some r \<Longrightarrow> pool (fuel + k) auto self w = Some r"
  by (auto simp: pool_def poll_until_done_more_fuel
      split: if_splits option.splits prod.splits sum.splits)

lemmas flux_eval =
  pool_def pool_once_def retrieve_image_def url_def download_image_def
  dict_get_def dict_index_def record_event_def sleep_def is_status_poll_def Let_def
  pending_response_def pending_status_def failed_status_def ready_status_def
  ready_world_def failed_world_def storage_world_def sample_url_def flux_cfg_def


lemma ready_world_pool:
  "pool 3 True pending_response ready_world =
     Some (Inr (Some (Image (1920, 1080))),
           pending_response\<lparr> image := Some (Image (1920, 1080)),
                              retriveal_url := JStr sample_url \<rparr>,
           ready_world\<lparr> trace :=
             [StatusPoll ''https://api.bfl.ai/v1/get_result?id=r1'', Sleep 1,
              StatusPoll ''https://api.bfl.ai/v1/get_result?id=r1'', Sleep 1,
              StatusPoll ''https://api.bfl.ai/v1/get_result?id=r1'',
              ImageDownload sample_url] \<rparr>)"
  by (simp add: numeral_3_eq_3 flux_eval)

text \<open>
  Claim C1, evaluated on the code. A job that is pending once and then reported Failed on
  every request: a Failed reply makes \<^verbatim>\<open>_pool\<close> answer False, as a pending one does, so
  resolution is still polling after any number of requests and neither raises nor
  returns. The other half of the claim holds: with replies Pending, Pending, Ready the
  result URL of the Ready payload is taken after three requests, one second apart, for
  this and any larger bound on the number of requests.
\<close>

theorem flux_failed_status_is_polled_forever:
  "(\<forall>fuel. url fuel pending_response failed_world = None)
   \<and> fst (pool_once pending_response
            (failed_world\<lparr> trace := [StatusPoll ''https://api.bfl.ai/v1/get_result?id=r1'',
                                      Sleep 1] \<rparr>)) = Inr False
   \<and> (\<forall>k. pool (3 + k) True pending_response ready_world =
        Some (Inr (Some (Image (1920, 1080))),
           pending_response\<lparr> image := Some (Image (1920, 1080)),
                              retriveal_url := JStr sample_url \<rparr>,
           ready_world\<lparr> trace :=
             [StatusPoll ''https://api.bfl.ai/v1/get_result?id=r1'', Sleep 1,
              StatusPoll ''https://api.bfl.ai/v1/get_result?id=r1'', Sleep 1,
              StatusPoll ''https://api.bfl.ai/v1/get_result?id=r1'',
              ImageDownload sample_url] \<rparr>))"
proof (intro conjI allI)
  fix fuel
  have u: "polling_url pending_response = JStr ''https://api.bfl.ai/v1/get_result?id=r1''"
    by (simp add: pending_response_def)
  have "\<forall>n \<ge> length (filter is_status_poll (trace failed_world)).
           status_reply failed_world n = Inr pending_status
           \<or> status_reply failed_world n = Inr failed_status"
    by (simp add: failed_world_def)
  from poll_until_done_never_done [OF u this]
  have "poll_until_done fuel pending_response failed_world = None" .
  then show "url fuel pending_response failed_world = None"
    by (simp add: url_def pool_def pending_response_def)
next
  show "fst (pool_once pending_response
            (failed_world\<lparr> trace := [StatusPoll ''https://api.bfl.ai/v1/get_result?id=r1'',
                                      Sleep 1] \<rparr>)) = Inr False"
    by (simp add: flux_eval)
next
  fix k
  show "pool (3 + k) True pending_response ready_world =
        Some (Inr (Some (Image (1920, 1080))),
           pending_response\<lparr> image := Some (Image (1920, 1080)),
                              retriveal_url := JStr sample_url \<rparr>,
           ready_world\<lparr> trace :=
             [StatusPoll ''https://api.bfl.ai/v1/get_result?id=r1'', Sleep 1,
              StatusPoll ''https://api.bfl.ai/v1/get_result?id=r1'', Sleep 1,
              StatusPoll ''https://api.bfl.ai/v1/get_result?id=r1'',
              ImageDownload sample_url] \<rparr>)"
    by (rule pool_more_fuel [OF ready_world_pool])
qed





section \<open>Properties of Flux generation\<close>

lemma generate_image_429_402:
  assumes "post_reply w (''https://api.bfl.ai/v1/'' @ fo_model options)
             (JDict [(''prompt'', JStr (fo_prompt options)),
                     (''aspect_ratio'', JStr (fo_aspect_ratio options))]) = Inr request"
  shows "status_code request = 429 \<Longrightarrow>
           fst (generate_image cfg options w) = Inl (ImageGenerationError ''Rate limit exceeded'')"
    and "status_code request = 402 \<Longrightarrow>
           fst (generate_image cfg options w) = Inl (ImageGenerationError ''Out of credits'')"
  using assms by (simp_all add: generate_image_def Let_def)

text \<open>
  Claim C6, evaluated on the code. A reply with status 429 or 402 raises the error of
  that condition. A reply with status 500 raises nothing: its body is wrapped in a
  response object, which has no polling URL.
\<close>

theorem generate_image_status_500_returns:
  "generate_image flux_cfg flux_request
      (post_world 500 (JDict [(''detail'', JStr ''Internal Server Error'')]))
     = (Inr \<lparr> response = JDict [(''detail'', JStr ''Internal Server Error'')],
              image = None, polling_url = JNull, request_id = JNull,
              retriveal_url = JNull, generator_config = flux_cfg \<rparr>,
        post_world 500 (JDict [(''detail'', JStr ''Internal Server Error'')])
          \<lparr> trace := [HttpPost ''https://api.bfl.ai/v1/flux-2-max''
                        (JDict [(''prompt'', JStr ''a cat''), (''aspect_ratio'', JStr ''1:1'')])] \<rparr>)
   \<and> fst (generate_image flux_cfg flux_request (post_world 429 (JDict [])))
       = Inl (ImageGenerationError ''Rate limit exceeded'')
   \<and> fst (generate_image flux_cfg flux_request (post_world 402 (JDict [])))
       = Inl (ImageGenerationError ''Out of credits'')"
  by (simp add: generate_image_def FluxResponse_def dict_get_def post_world_def
      storage_world_def flux_request_def record_event_def Let_def)

section \<open>Properties of the nanobanana edit request\<close>




end
